theory Spec2Isabelle
  imports Main
begin

section \<open>The Pocket Casts icon component\<close>

text \<open>
  \<^verbatim>\<open>src/src/components/icons/pocket-casts.tsx\<close> exports one React function component.
  Its body is a single \<^verbatim>\<open>return\<close> of a JSX tree: an \<^verbatim>\<open>svg\<close> element with three
  attributes and one \<^verbatim>\<open>path\<close> child. After the definition the module assigns the
  component's \<^verbatim>\<open>displayName\<close>.
\<close>

subsection \<open>Markup\<close>

text \<open>
  A JSX element: its tag, its attributes in the order the source writes them, and its
  children.
\<close>

datatype element =
  Element (tag: string) (attrs: "(string \<times> string) list") (children: "element list")

subsection \<open>Props\<close>

text \<open>
  Modelled from the spec: the type \<^verbatim>\<open>Icon.CommonProps\<close> is declared in
  \<^verbatim>\<open>@/components/icons\<close>, which is not among the sources. The spec gives the component
  a single style-class input, and the component destructures exactly \<^verbatim>\<open>className\<close>, so
  the record has that one optional field; \<open>None\<close> is an absent or undefined
  \<^verbatim>\<open>className\<close>. The extension slot of the record stands for every other property a
  props object may carry.
\<close>

record CommonProps =
  className :: "string option"

subsection \<open>The class-name helper\<close>

text \<open>
  \<^verbatim>\<open>cn\<close> is imported from \<^verbatim>\<open>@/lib/utils\<close>, which is not among the sources. The component
  calls it once, on the literal \<^verbatim>\<open>"fill-current"\<close> and on \<^verbatim>\<open>className\<close>, and expects a
  string. The component is therefore modelled with the helper as a parameter of this
  type.
\<close>

type_synonym class_helper = "string \<Rightarrow> string option \<Rightarrow> string"

text \<open>
  Two sample helpers of that type, at which statements about every helper are
  instantiated. Neither is the helper of \<^verbatim>\<open>@/lib/utils\<close>, whose behaviour neither the
  sources nor the spec give. \<open>cn_join\<close> appends the given class to the base class after a
  space and drops an absent or empty one; \<open>cn_base_only\<close> ignores the given class.
\<close>

definition cn_join :: class_helper where
  "cn_join base extra =
     (case extra of
        None \<Rightarrow> base
      | Some c \<Rightarrow> if c = [] then base else base @ '' '' @ c)"

definition cn_base_only :: class_helper where
  "cn_base_only base extra = base"

subsection \<open>The component\<close>

text \<open>The \<^verbatim>\<open>d\<close> attribute of the \<^verbatim>\<open>path\<close> element (line 17).\<close>

definition path_d :: string where
  "path_d =
     ''M128 20C187.65 20 236 68.3503 236 128C236 187.65 187.65 236 128 236C68.3503 236 20 187.65 20 128C20 68.3503 68.3503 20 128 20ZM128 211.997C81.6072 211.997 44.003 174.393 44.003 128C44.003 81.6072 81.6072 44.003 128 44.003V64.9955C115.541 64.9955 103.361 68.6901 93.001 75.6121C82.6412 82.5341 74.5667 92.3726 69.7983 103.883C65.03 115.394 63.782 128.061 66.2122 140.281C68.6425 152.501 74.6418 163.726 83.4515 172.537C92.2612 181.348 103.486 187.348 115.706 189.78C127.926 192.211 140.592 190.965 152.104 186.198C163.615 181.43 173.454 173.357 180.377 162.998C187.301 152.639 190.996 140.459 190.998 128H211.997C211.997 174.4 174.393 211.997 128 211.997ZM77.5977 128C77.5977 114.632 82.908 101.812 92.3602 92.3602C101.812 82.908 114.632 77.5978 128 77.5978V95.924C121.658 95.9253 115.459 97.8071 110.186 101.331C104.913 104.856 100.804 109.864 98.3773 115.724C95.9509 121.584 95.3164 128.031 96.554 134.251C97.7916 140.471 100.846 146.185 105.33 150.67C109.815 155.154 115.529 158.208 121.749 159.446C127.969 160.684 134.416 160.049 140.276 157.623C146.136 155.196 151.144 151.087 154.669 145.814C158.193 140.541 160.075 134.342 160.076 128H178.402C178.402 141.368 173.092 154.188 163.64 163.64C154.188 173.092 141.368 178.402 128 178.402C114.632 178.402 101.812 173.092 92.3602 163.64C82.908 154.188 77.5977 141.368 77.5977 128Z''"

text \<open>
  Lines 5 to 21:
  \<^verbatim>\<open>({ className }) => { return (<svg xmlns=... viewBox=... className={cn("fill-current", className)}>
  <path fillRule="evenodd" clipRule="evenodd" d=... /></svg>) }\<close>
\<close>

definition PocketCastsIcon :: "class_helper \<Rightarrow> 'a CommonProps_scheme \<Rightarrow> element" where
  "PocketCastsIcon cn props =
     Element ''svg''
       [(''xmlns'', ''http://www.w3.org/2000/svg''),
        (''viewBox'', ''0 0 256 256''),
        (''className'', cn ''fill-current'' (className props))]
       [Element ''path''
          [(''fillRule'', ''evenodd''),
           (''clipRule'', ''evenodd''),
           (''d'', path_d)]
          []]"

subsection \<open>Module state\<close>

text \<open>
  The only mutable thing the module touches is the function object
  \<^verbatim>\<open>PocketCastsIcon\<close> itself: line 23 assigns its \<^verbatim>\<open>displayName\<close>. The record holds
  that property; its extension slot stands for all other state of the module.
\<close>

record function_object =
  displayName :: "string option"

text \<open>Line 23: \<^verbatim>\<open>PocketCastsIcon.displayName = "PocketCastsIcon"\<close>.\<close>

definition module_body :: "'s function_object_scheme \<Rightarrow> 's function_object_scheme" where
  "module_body f = f\<lparr>displayName := Some ''PocketCastsIcon''\<rparr>"

text \<open>
  One invocation of the component in state passing style. The body reads no variable
  outside its parameter and assigns none, so the state comes back as it went in.
\<close>

definition render ::
  "class_helper \<Rightarrow> 'a CommonProps_scheme \<Rightarrow> 's function_object_scheme
     \<Rightarrow> element \<times> 's function_object_scheme" where
  "render cn props f = (PocketCastsIcon cn props, f)"

subsection \<open>Evaluation of a call\<close>

text \<open>
  The definitions above describe the component on well-typed input and with a helper
  that is a function. The definitions of this subsection follow one call of the
  component as the language evaluates it, so that a throw and hidden state have a
  place in the model.

  The argument of the call is a value of one of four kinds. Objects are association
  lists of their data properties, the first entry of a name being the one that counts;
  accessor properties are left out. \<open>Str\<close> stands for the primitives other than
  \<^verbatim>\<open>undefined\<close> and \<^verbatim>\<open>null\<close>: none of them has a property \<^verbatim>\<open>className\<close>.
\<close>

datatype js_value = Undefined | Null | Str string | Obj "(string \<times> js_value) list"

text \<open>
  A call ends by returning or by throwing. \<open>TypeError\<close> is the error the language raises
  itself; \<open>HelperError\<close> is whatever the helper throws.
\<close>

datatype error = TypeError | HelperError string

text \<open>
  The helper as the call sees it: it gets the literal and the value bound to
  \<^verbatim>\<open>className\<close>, may read and change a state \<open>'h\<close> of its own (a cache, a counter, any
  variable outside the component), and returns a string or throws.
\<close>

type_synonym 'h effectful_helper =
  "string \<Rightarrow> js_value \<Rightarrow> 'h \<Rightarrow> (error + string) \<times> 'h"

text \<open>
  Lines 5 to 7, the parameter \<^verbatim>\<open>({ className })\<close>. Destructuring \<^verbatim>\<open>undefined\<close> or
  \<^verbatim>\<open>null\<close> throws a \<^verbatim>\<open>TypeError\<close>. Any other value is read at the property
  \<^verbatim>\<open>className\<close>; a property that is not there reads as \<^verbatim>\<open>undefined\<close>, and a string has
  no such property.
\<close>

fun destructure_className :: "js_value \<Rightarrow> error + js_value" where
  "destructure_className Undefined = Inl TypeError"
| "destructure_className Null = Inl TypeError"
| "destructure_className (Str s) = Inr Undefined"
| "destructure_className (Obj properties) =
     Inr (case map_of properties ''className'' of None \<Rightarrow> Undefined | Some v \<Rightarrow> v)"

text \<open>Lines 9 to 19, the JSX tree, with the string the helper returned as class.\<close>

definition svg_markup :: "string \<Rightarrow> element" where
  "svg_markup cls =
     Element ''svg''
       [(''xmlns'', ''http://www.w3.org/2000/svg''),
        (''viewBox'', ''0 0 256 256''),
        (''className'', cls)]
       [Element ''path''
          [(''fillRule'', ''evenodd''),
           (''clipRule'', ''evenodd''),
           (''d'', path_d)]
          []]"

text \<open>
  One call: bind the parameter, call the helper, build the tree. A throw of either step
  ends the call; the state is the one the helper leaves, since the body itself reads
  and assigns no variable.
\<close>

definition PocketCastsIcon_call ::
  "'h effectful_helper \<Rightarrow> js_value \<Rightarrow> 'h \<Rightarrow> (error + element) \<times> 'h" where
  "PocketCastsIcon_call cn props h =
     (case destructure_className props of
        Inl e \<Rightarrow> (Inl e, h)
      | Inr c \<Rightarrow>
          (case cn ''fill-current'' c h of
             (Inl e, h') \<Rightarrow> (Inl e, h')
           | (Inr cls, h') \<Rightarrow> (Inr (svg_markup cls), h')))"


text \<open>The value a well-typed props record is at run time.\<close>

definition props_value :: "'a CommonProps_scheme \<Rightarrow> js_value" where
  "props_value p =
     Obj (case className p of None \<Rightarrow> [] | Some c \<Rightarrow> [(''className'', Str c)])"


subsection \<open>Observers on the markup\<close>

definition attr :: "element \<Rightarrow> string \<Rightarrow> string option" where
  "attr e k = map_of (attrs e) k"

definition without_attr :: "string \<Rightarrow> element \<Rightarrow> element" where
  "without_attr k e = Element (tag e) (filter (\<lambda>kv. fst kv \<noteq> k) (attrs e)) (children e)"

section \<open>The documentation pages\<close>

text \<open>
  Every other source file is an MDX documentation page, held as its list of lines. Each
  constant below is the head of one page, up to and including the line that closes the
  front matter; the body of the page follows it.
\<close>

text \<open>\<^verbatim>\<open>src/content/docs/400-guides/550-scheduling/200-repetition.mdx\<close>, lines 1 to 5.\<close>

definition repetition_mdx :: "string list" where
  \<open>repetition_mdx =
     [''---'',
      ''title: Repetition'',
      ''excerpt: Discover the significance of repetition in effect-driven software development with functions like `repeat` and `repeatOrElse`. Explore repeat policies, which enable you to execute effects multiple times according to specific criteria. Learn the syntax and examples of `repeat` and `repeatOrElse` for effective handling of repeated actions, including optional fallback strategies for errors.'',
      ''bottomNavigation: pagination'',
      ''---'']\<close>

text \<open>\<^verbatim>\<open>src/content/docs/400-guides/800-schema/350-annotations.mdx\<close>, lines 1 to 5.\<close>

definition annotations_mdx :: "string list" where
  \<open>annotations_mdx =
     [''---'',
      ''title: Annotations'',
      ''excerpt: Annotations'',
      ''bottomNavigation: pagination'',
      ''---'']\<close>

text \<open>\<^verbatim>\<open>src/content/docs/400-guides/800-schema/450-error-formatters.mdx\<close>, lines 1 to 5.\<close>

definition error_formatters_mdx :: "string list" where
  \<open>error_formatters_mdx =
     [''---'',
      ''title: Error Formatters'',
      ''excerpt: Error Formatters'',
      ''bottomNavigation: pagination'',
      ''---'']\<close>

text \<open>\<^verbatim>\<open>src/content/docs/400-guides/800-schema/700-schema-to-x/200-json-schema.mdx\<close>, lines 1 to 5.\<close>

definition json_schema_mdx :: "string list" where
  \<open>json_schema_mdx =
     [''---'',
      ''title: JSON Schema'',
      ''excerpt: JSON Schema'',
      ''bottomNavigation: pagination'',
      ''---'']\<close>

text \<open>\<^verbatim>\<open>src/content/docs/700-other/300-data-types/redacted.mdx\<close>, lines 1 to 5.\<close>

definition redacted_mdx :: "string list" where
  \<open>redacted_mdx =
     [''---'',
      ''title: Redacted'',
      ''excerpt: The Redacted module in "effect" provides tools to securely handle sensitive data within applications, preventing accidental exposure in logs or error messages. It offers functions to create, manage, and compare `Redacted` instances, ensuring sensitive information is protected and managed appropriately.'',
      ''bottomNavigation: pagination'',
      ''---'']\<close>

text \<open>\<^verbatim>\<open>src/unnamed/part_000\<close>, lines 1 to 5.\<close>

definition part_000 :: "string list" where
  \<open>part_000 =
     [''---'',
      ''title: Getting Started'',
      ''excerpt: Getting Started'',
      ''bottomNavigation: pagination'',
      ''---'']\<close>

text \<open>\<^verbatim>\<open>src/unnamed/part_001\<close>, lines 1 to 5.\<close>

definition part_001 :: "string list" where
  \<open>part_001 =
     [''---'',
      ''title: Error Messages'',
      ''excerpt: Error Messages'',
      ''bottomNavigation: pagination'',
      ''---'']\<close>

text \<open>\<^verbatim>\<open>src/unnamed/part_002\<close>, lines 1 to 5.\<close>

definition part_002 :: "string list" where
  \<open>part_002 =
     [''---'',
      ''title: Class APIs'',
      ''excerpt: Class APIs'',
      ''bottomNavigation: pagination'',
      ''---'']\<close>

definition documentation_pages :: "string list list" where
  "documentation_pages =
     [repetition_mdx, annotations_mdx, error_formatters_mdx, json_schema_mdx,
      redacted_mdx, part_000, part_001, part_002]"

subsection \<open>Front matter\<close>

text \<open>
  The front matter of a page is the block of lines between a first line \<^verbatim>\<open>---\<close> and the
  next line \<^verbatim>\<open>---\<close>. A page without either delimiter has none.
\<close>

fun block_until_delimiter :: "string list \<Rightarrow> string list option" where
  "block_until_delimiter [] = None"
| "block_until_delimiter (l # ls) =
     (if l = ''---'' then Some []
      else map_option ((#) l) (block_until_delimiter ls))"

fun front_matter :: "string list \<Rightarrow> string list option" where
  "front_matter [] = None"
| "front_matter (l # ls) = (if l = ''---'' then block_until_delimiter ls else None)"

text \<open>The field a line \<^verbatim>\<open>name: value\<close> defines; a line without a colon defines none.\<close>

definition field_names :: "string list \<Rightarrow> string list" where
  "field_names block =
     map (takeWhile (\<lambda>c. c \<noteq> CHR '':'')) (filter (\<lambda>l. CHR '':'' \<in> set l) block)"

definition exposes_document_structure :: "string list \<Rightarrow> bool" where
  "exposes_document_structure page =
     (case front_matter page of
        None \<Rightarrow> False
      | Some block \<Rightarrow>
          ''title'' \<in> set (field_names block) \<and>
          ''excerpt'' \<in> set (field_names block) \<and>
          ''bottomNavigation'' \<in> set (field_names block))"

section \<open>Properties of the icon component\<close>

subsection \<open>Auxiliary facts\<close>

lemma render_markup: "fst (render cn p f) = PocketCastsIcon cn p"
  by (simp add: render_def)

lemma svg_attrs:
  "attrs (PocketCastsIcon cn p) =
     [(''xmlns'', ''http://www.w3.org/2000/svg''),
      (''viewBox'', ''0 0 256 256''),
      (''className'', cn ''fill-current'' (className p))]"
  by (simp add: PocketCastsIcon_def)

lemma svg_without_class:
  "without_attr ''className'' (PocketCastsIcon cn p) =
     Element ''svg''
       [(''xmlns'', ''http://www.w3.org/2000/svg''), (''viewBox'', ''0 0 256 256'')]
       [Element ''path''
          [(''fillRule'', ''evenodd''), (''clipRule'', ''evenodd''), (''d'', path_d)] []]"
  by (simp add: PocketCastsIcon_def without_attr_def)

lemma PocketCastsIcon_eq_iff:
  "PocketCastsIcon cn p = PocketCastsIcon cn' q
     \<longleftrightarrow> cn ''fill-current'' (className p) = cn' ''fill-current'' (className q)"
  by (simp add: PocketCastsIcon_def)

lemma PocketCastsIcon_markup:
  "PocketCastsIcon cn p = svg_markup (cn ''fill-current'' (className p))"
  by (simp add: PocketCastsIcon_def svg_markup_def)



text \<open>
  The two descriptions of the component agree: on the value of a well-typed props
  record, and with a helper that returns what a function \<open>cn\<close> returns and leaves the
  state alone, a call returns the markup \<open>PocketCastsIcon cn\<close> gives.
\<close>

lemma call_well_typed:
  assumes "\<And>h. cn_e ''fill-current'' Undefined h = (Inr (cn ''fill-current'' None), h)"
    and "\<And>s h. cn_e ''fill-current'' (Str s) h = (Inr (cn ''fill-current'' (Some s)), h)"
  shows "PocketCastsIcon_call cn_e (props_value p) h = (Inr (PocketCastsIcon cn p), h)"
  using assms
  by (cases "className p")
     (simp_all add: PocketCastsIcon_call_def props_value_def PocketCastsIcon_markup)


subsection \<open>Determinism\<close>



subsection \<open>What is constant in the markup\<close>

text \<open>
  C2, as the spec states it: the markup is one constant value for every \<^verbatim>\<open>className\<close>.
  The code does not make it so. It hands \<^verbatim>\<open>className\<close> to the helper and puts the
  result into the markup, so the props \<^verbatim>\<open>{className: "w-4"}\<close> and \<^verbatim>\<open>{}\<close> do not give the
  same markup with every helper.
\<close>

theorem PocketCastsIcon_not_constant:
  "\<not> (\<forall>cn. PocketCastsIcon cn \<lparr>className = Some ''w-4''\<rparr>
              = PocketCastsIcon cn \<lparr>className = None\<rparr>)"
proof
  assume "\<forall>cn. PocketCastsIcon cn \<lparr>className = Some ''w-4''\<rparr>
              = PocketCastsIcon cn \<lparr>className = None\<rparr>"
  then have "PocketCastsIcon cn_join \<lparr>className = Some ''w-4''\<rparr>
              = PocketCastsIcon cn_join \<lparr>className = None\<rparr>"
    by (rule spec)
  then show False
    by (simp add: PocketCastsIcon_eq_iff cn_join_def)
qed

text \<open>
  C2, amended. The markup is the fixed vector graphic with one attribute computed from
  the input. With the class attribute set aside, it is the constant svg element of the
  source with its \<^verbatim>\<open>xmlns\<close>, its \<^verbatim>\<open>viewBox\<close> and its one path child. The attributes are
  \<^verbatim>\<open>xmlns\<close>, \<^verbatim>\<open>viewBox\<close> and \<^verbatim>\<open>className\<close>, and the last is
  \<^verbatim>\<open>cn("fill-current", className)\<close>. Two inputs give the same markup exactly when the
  helper gives them the same class.
\<close>

theorem PocketCastsIcon_constant_up_to_class:
  fixes p :: "'a CommonProps_scheme" and q :: "'b CommonProps_scheme"
  shows
    "without_attr ''className'' (PocketCastsIcon cn p) =
       Element ''svg''
         [(''xmlns'', ''http://www.w3.org/2000/svg''), (''viewBox'', ''0 0 256 256'')]
         [Element ''path''
            [(''fillRule'', ''evenodd''), (''clipRule'', ''evenodd''), (''d'', path_d)] []]
     \<and> map fst (attrs (PocketCastsIcon cn p)) = [''xmlns'', ''viewBox'', ''className'']
     \<and> attr (PocketCastsIcon cn p) ''className'' = Some (cn ''fill-current'' (className p))
     \<and> (PocketCastsIcon cn p = PocketCastsIcon cn q
          \<longleftrightarrow> cn ''fill-current'' (className p) = cn ''fill-current'' (className q))"
  by (simp add: attr_def svg_attrs svg_without_class PocketCastsIcon_eq_iff)

text \<open>
  C3. Everything except the class attribute is unchanged by the input. The result is an
  svg element whose attributes are \<^verbatim>\<open>xmlns\<close>, \<^verbatim>\<open>viewBox\<close> and \<^verbatim>\<open>className\<close>, the first two
  with the values of the source; its only child is the path element with \<^verbatim>\<open>fillRule\<close>,
  \<^verbatim>\<open>clipRule\<close> and the constant path data; and once the class attribute is set aside,
  the markup is the same for any two props.
\<close>

theorem PocketCastsIcon_frame:
  fixes p :: "'a CommonProps_scheme" and q :: "'b CommonProps_scheme"
  shows
    "tag (PocketCastsIcon cn p) = ''svg''
     \<and> map fst (attrs (PocketCastsIcon cn p)) = [''xmlns'', ''viewBox'', ''className'']
     \<and> attr (PocketCastsIcon cn p) ''xmlns'' = Some ''http://www.w3.org/2000/svg''
     \<and> attr (PocketCastsIcon cn p) ''viewBox'' = Some ''0 0 256 256''
     \<and> children (PocketCastsIcon cn p) =
          [Element ''path''
             [(''fillRule'', ''evenodd''), (''clipRule'', ''evenodd''), (''d'', path_d)] []]
     \<and> without_attr ''className'' (PocketCastsIcon cn p)
          = without_attr ''className'' (PocketCastsIcon cn q)"
  by (simp add: attr_def svg_attrs svg_without_class) (simp add: PocketCastsIcon_def)

subsection \<open>Failure and effect\<close>



subsection \<open>Dependence on the input and on the helper\<close>

text \<open>
  C5. The output depends on the props through \<^verbatim>\<open>className\<close> only: two props objects
  with equal \<^verbatim>\<open>className\<close> give equal markup, whatever else they carry.
\<close>

theorem PocketCastsIcon_className_only:
  fixes p :: "'a CommonProps_scheme" and q :: "'b CommonProps_scheme"
  shows "className p = className q \<Longrightarrow> PocketCastsIcon cn p = PocketCastsIcon cn q"
  by (simp add: PocketCastsIcon_def)

theorem PocketCastsIcon_className_only_witness:
  "className \<lparr>className = Some ''w-4'', \<dots> = (3::nat)\<rparr>
     = className \<lparr>className = Some ''w-4'', \<dots> = ''children''\<rparr>
   \<and> PocketCastsIcon cn_join \<lparr>className = Some ''w-4'', \<dots> = (3::nat)\<rparr>
       = PocketCastsIcon cn_join \<lparr>className = Some ''w-4'', \<dots> = ''children''\<rparr>"
  using PocketCastsIcon_className_only
    [of "\<lparr>className = Some ''w-4'', \<dots> = (3::nat)\<rparr>"
        "\<lparr>className = Some ''w-4'', \<dots> = ''children''\<rparr>" cn_join]
  by simp

text \<open>
  C6, as the spec states it: the markup is determined by the constants of the file and
  by \<^verbatim>\<open>className\<close>, and no definition of another module is invoked. The component calls
  \<^verbatim>\<open>cn\<close> of \<^verbatim>\<open>@/lib/utils\<close>; with the same props, two helpers give different markup.
\<close>

theorem PocketCastsIcon_depends_on_cn:
  "PocketCastsIcon cn_join \<lparr>className = Some ''w-4''\<rparr>
     \<noteq> PocketCastsIcon cn_base_only \<lparr>className = Some ''w-4''\<rparr>"
  by (simp add: PocketCastsIcon_def cn_join_def cn_base_only_def)

text \<open>
  C6, amended. The component depends on one definition of another module, \<^verbatim>\<open>cn\<close>, and
  on it only through the result of the call \<^verbatim>\<open>cn("fill-current", className)\<close>. The markup
  is the tree of the file's own constants with that result as class, so two helpers and
  two props give the same markup exactly when the call returns the same string. With
  the class attribute set aside, the markup is the same for every helper and every
  props, namely the constant svg element of the source.
\<close>

theorem PocketCastsIcon_determined_by_cn_call:
  fixes p :: "'a CommonProps_scheme" and q :: "'b CommonProps_scheme"
  shows
    "PocketCastsIcon cn p = svg_markup (cn ''fill-current'' (className p))
     \<and> (PocketCastsIcon cn p = PocketCastsIcon cn' q
          \<longleftrightarrow> cn ''fill-current'' (className p) = cn' ''fill-current'' (className q))
     \<and> without_attr ''className'' (PocketCastsIcon cn p)
          = without_attr ''className'' (PocketCastsIcon cn' q)
     \<and> without_attr ''className'' (PocketCastsIcon cn p) =
          Element ''svg''
            [(''xmlns'', ''http://www.w3.org/2000/svg''), (''viewBox'', ''0 0 256 256'')]
            [Element ''path''
               [(''fillRule'', ''evenodd''), (''clipRule'', ''evenodd''), (''d'', path_d)] []]"
  by (rule conjI [OF PocketCastsIcon_markup])
     (simp add: PocketCastsIcon_eq_iff svg_without_class)

subsection \<open>The display name\<close>

text \<open>
  C9. After the module body has run, \<^verbatim>\<open>displayName\<close> is \<^verbatim>\<open>"PocketCastsIcon"\<close>; nothing
  else of the state has changed; and the markup of an invocation is the same before and
  after the assignment.
\<close>

theorem displayName_assignment:
  "displayName (module_body f) = Some ''PocketCastsIcon''
   \<and> function_object.more (module_body f) = function_object.more f
   \<and> fst (render cn p (module_body f)) = fst (render cn p f)"
  by (simp add: module_body_def render_markup)

section \<open>Properties of the documentation pages\<close>

lemma block_until_delimiter_append:
  "block_until_delimiter ls = Some b \<Longrightarrow> block_until_delimiter (ls @ rest) = Some b"
  by (induction ls arbitrary: b) (auto split: if_splits)

lemma front_matter_append:
  "front_matter ls = Some b \<Longrightarrow> front_matter (ls @ rest) = Some b"
  by (cases ls) (auto simp: block_until_delimiter_append split: if_splits)

lemma exposes_append:
  "exposes_document_structure h \<Longrightarrow> exposes_document_structure (h @ body)"
  by (auto simp: exposes_document_structure_def front_matter_append split: option.splits)

lemma exposes_repetition: "exposes_document_structure repetition_mdx"
  by (simp add: exposes_document_structure_def repetition_mdx_def field_names_def)

lemma exposes_annotations: "exposes_document_structure annotations_mdx"
  by (simp add: exposes_document_structure_def annotations_mdx_def field_names_def)

lemma exposes_error_formatters: "exposes_document_structure error_formatters_mdx"
  by (simp add: exposes_document_structure_def error_formatters_mdx_def field_names_def)

lemma exposes_json_schema: "exposes_document_structure json_schema_mdx"
  by (simp add: exposes_document_structure_def json_schema_mdx_def field_names_def)

lemma exposes_redacted: "exposes_document_structure redacted_mdx"
  by (simp add: exposes_document_structure_def redacted_mdx_def field_names_def)

lemma exposes_part_000: "exposes_document_structure part_000"
  by (simp add: exposes_document_structure_def part_000_def field_names_def)

lemma exposes_part_001: "exposes_document_structure part_001"
  by (simp add: exposes_document_structure_def part_001_def field_names_def)

lemma exposes_part_002: "exposes_document_structure part_002"
  by (simp add: exposes_document_structure_def part_002_def field_names_def)

text \<open>
  C7. Every documentation page begins with a front matter block delimited by \<^verbatim>\<open>---\<close>
  lines that has a \<^verbatim>\<open>title\<close>, an \<^verbatim>\<open>excerpt\<close> and a \<^verbatim>\<open>bottomNavigation\<close> field, whatever
  the body that follows the block.
\<close>

theorem pages_expose_document_structure:
  "\<forall>h \<in> set documentation_pages. \<forall>body. exposes_document_structure (h @ body)"
  by (simp add: documentation_pages_def exposes_append exposes_repetition
      exposes_annotations exposes_error_formatters exposes_json_schema exposes_redacted
      exposes_part_000 exposes_part_001 exposes_part_002)

theorem pages_expose_document_structure_witness:
  "redacted_mdx \<in> set documentation_pages
   \<and> exposes_document_structure
       (redacted_mdx @
          ['''',
           ''The Redacted module provides functionality for handling sensitive information securely within your application.''])"
proof -
  have m: "redacted_mdx \<in> set documentation_pages"
    by (simp add: documentation_pages_def)
  from pages_expose_document_structure m show ?thesis
    by blast
qed

end
